theory Spec2Isabelle
  imports Complex_Main
begin

section \<open>Pong: a shallow embedding of \<^verbatim>\<open>src/pong.py\<close>\<close>

text \<open>
  The game logic of \<^verbatim>\<open>pong.py\<close> is three classes: \<^verbatim>\<open>Paddle\<close>, \<^verbatim>\<open>Ball\<close> and \<^verbatim>\<open>Game\<close>.
  Their methods mutate \<^verbatim>\<open>self\<close>; here each method takes the object and returns the
  updated one.

  Numbers. Rectangle coordinates are integers (type \<open>int\<close>; the game keeps them far
  inside the range of the C \<^verbatim>\<open>int\<close> that \<^verbatim>\<open>pygame.Rect\<close> stores). Speeds, velocities
  and the frame time \<^verbatim>\<open>dt\<close> are Python floats; they are modelled by the type \<open>real\<close>
  with exact arithmetic, so rounding, infinities and NaN are outside the model (the
  literal \<^verbatim>\<open>1.04\<close> is the rational \<open>104/100\<close>). Everything proved below about
  velocities rests on comparisons, negation, \<^verbatim>\<open>max\<close>/\<^verbatim>\<open>min\<close> and truncation.

  Randomness. The two calls of \<^verbatim>\<open>random.uniform\<close> are inputs of the model: the value
  drawn is a parameter of the function that draws it.
\<close>

subsection \<open>Constants (lines 24--29)\<close>

definition WIDTH :: int where "WIDTH = 800"
definition HEIGHT :: int where "HEIGHT = 600"
definition FPS :: int where "FPS = 60"
definition PADDLE_WIDTH :: int where "PADDLE_WIDTH = 12"
definition PADDLE_HEIGHT :: int where "PADDLE_HEIGHT = 100"
definition BALL_SIZE :: int where "BALL_SIZE = 12"
definition PADDLE_MARGIN :: int where "PADDLE_MARGIN = 24"

subsection \<open>The library's primitives: \<^verbatim>\<open>pygame.Rect\<close>, \<^verbatim>\<open>pygame.Vector2\<close>, \<^verbatim>\<open>int\<close>, \<^verbatim>\<open>/\<close>, \<^verbatim>\<open>%\<close>\<close>

text \<open>
  A \<^verbatim>\<open>pygame.Rect\<close> holds four integers: the top-left corner and the size. Its virtual
  attributes are computed from them: \<^verbatim>\<open>right = x + w\<close>, \<^verbatim>\<open>bottom = y + h\<close>,
  \<^verbatim>\<open>centerx = x + w // 2\<close>, \<^verbatim>\<open>centery = y + h // 2\<close>. Assigning to one of them moves the
  rectangle and keeps its size.
\<close>

record Rect =
  rect_x :: int
  rect_y :: int
  rect_w :: int
  rect_h :: int

definition rect_left :: "Rect \<Rightarrow> int" where
  "rect_left r = rect_x r"

definition rect_top :: "Rect \<Rightarrow> int" where
  "rect_top r = rect_y r"

definition rect_right :: "Rect \<Rightarrow> int" where
  "rect_right r = rect_x r + rect_w r"

definition rect_bottom :: "Rect \<Rightarrow> int" where
  "rect_bottom r = rect_y r + rect_h r"

definition rect_centerx :: "Rect \<Rightarrow> int" where
  "rect_centerx r = rect_x r + rect_w r div 2"

definition rect_centery :: "Rect \<Rightarrow> int" where
  "rect_centery r = rect_y r + rect_h r div 2"

definition rect_center :: "Rect \<Rightarrow> int \<times> int" where
  "rect_center r = (rect_centerx r, rect_centery r)"

definition set_left :: "int \<Rightarrow> Rect \<Rightarrow> Rect" where
  "set_left v r = r\<lparr>rect_x := v\<rparr>"

definition set_top :: "int \<Rightarrow> Rect \<Rightarrow> Rect" where
  "set_top v r = r\<lparr>rect_y := v\<rparr>"

definition set_right :: "int \<Rightarrow> Rect \<Rightarrow> Rect" where
  "set_right v r = r\<lparr>rect_x := v - rect_w r\<rparr>"

definition set_bottom :: "int \<Rightarrow> Rect \<Rightarrow> Rect" where
  "set_bottom v r = r\<lparr>rect_y := v - rect_h r\<rparr>"

definition set_center :: "int \<times> int \<Rightarrow> Rect \<Rightarrow> Rect" where
  "set_center c r = r\<lparr>rect_x := fst c - rect_w r div 2, rect_y := snd c - rect_h r div 2\<rparr>"

text \<open>
  \<^verbatim>\<open>Rect.colliderect\<close>: two rectangles intersect when their interiors overlap; touching
  edges do not count, and a rectangle of zero width or height intersects nothing.
\<close>

definition colliderect :: "Rect \<Rightarrow> Rect \<Rightarrow> bool" where
  "colliderect a b =
     (rect_w a \<noteq> 0 \<and> rect_h a \<noteq> 0 \<and> rect_w b \<noteq> 0 \<and> rect_h b \<noteq> 0 \<and>
      min (rect_x a) (rect_x a + rect_w a) < max (rect_x b) (rect_x b + rect_w b) \<and>
      min (rect_y a) (rect_y a + rect_h a) < max (rect_y b) (rect_y b + rect_h b) \<and>
      max (rect_x a) (rect_x a + rect_w a) > min (rect_x b) (rect_x b + rect_w b) \<and>
      max (rect_y a) (rect_y a + rect_h a) > min (rect_y b) (rect_y b + rect_h b))"

record Vector2 =
  vec_x :: real
  vec_y :: real

text \<open>Python's \<^verbatim>\<open>int(v)\<close> on a float truncates toward zero.\<close>

definition py_int :: "real \<Rightarrow> int" where
  "py_int v = (if 0 \<le> v then \<lfloor>v\<rfloor> else \<lceil>v\<rceil>)"

text \<open>
  Python's \<^verbatim>\<open>a / b\<close> and \<^verbatim>\<open>a % b\<close> on floats raise \<^verbatim>\<open>ZeroDivisionError\<close> when \<^verbatim>\<open>b\<close>
  is zero; HOL's division would return 0. The remainder takes the sign of the divisor.
\<close>

datatype error = ZeroDivisionError

definition py_truediv :: "real \<Rightarrow> real \<Rightarrow> error + real" where
  "py_truediv a b = (if b = 0 then Inl ZeroDivisionError else Inr (a / b))"

definition py_mod :: "real \<Rightarrow> real \<Rightarrow> error + real" where
  "py_mod a b = (if b = 0 then Inl ZeroDivisionError else Inr (a - b * of_int \<lfloor>a / b\<rfloor>))"

subsection \<open>\<^verbatim>\<open>class Score\<close> (lines 37--40)\<close>

record Score =
  score_left :: int
  score_right :: int

subsection \<open>\<^verbatim>\<open>class Paddle\<close> (lines 43--71)\<close>

record Paddle =
  prect :: Rect
  pspeed :: real

definition Paddle_init :: "int \<Rightarrow> int \<Rightarrow> real \<Rightarrow> Paddle" where
  "Paddle_init x y speed =
     \<lparr>prect = \<lparr>rect_x = x, rect_y = y, rect_w = PADDLE_WIDTH, rect_h = PADDLE_HEIGHT\<rparr>,
      pspeed = speed\<rparr>"

definition Paddle_clamp :: "Paddle \<Rightarrow> Paddle" where
  "Paddle_clamp p =
     (let r1 = set_top (max 0 (rect_top (prect p))) (prect p);
          r2 = set_bottom (min HEIGHT (rect_bottom r1)) r1
      in p\<lparr>prect := r2\<rparr>)"

definition Paddle_move_towards :: "Paddle \<Rightarrow> real \<Rightarrow> real \<Rightarrow> Paddle" where
  "Paddle_move_towards p target_y dt =
     (let center_y = rect_centery (prect p) in
      if \<bar>target_y - of_int center_y\<bar> \<le> 1 then p
      else
        let direction = (if target_y > of_int center_y then 1 else - 1);
            dy = direction * pspeed p * dt
        in Paddle_clamp (p\<lparr>prect := (prect p)\<lparr>rect_y := rect_y (prect p) + py_int dy\<rparr>\<rparr>))"

definition Paddle_move_input :: "Paddle \<Rightarrow> bool \<Rightarrow> bool \<Rightarrow> real \<Rightarrow> Paddle" where
  "Paddle_move_input p up down dt =
     (let dy = (if up \<and> \<not> down then - pspeed p * dt
                else if down \<and> \<not> up then pspeed p * dt
                else 0)
      in Paddle_clamp (p\<lparr>prect := (prect p)\<lparr>rect_y := rect_y (prect p) + py_int dy\<rparr>\<rparr>))"

subsection \<open>\<^verbatim>\<open>class Ball\<close> (lines 77--121)\<close>

record Ball =
  brect :: Rect
  base_speed :: real
  vel :: Vector2

text \<open>
  \<^verbatim>\<open>reset\<close>: \<open>angle\<close> is the value that \<^verbatim>\<open>random.uniform(-0.35, 0.35)\<close> returns.
\<close>

definition Ball_reset :: "Ball \<Rightarrow> int \<Rightarrow> real \<Rightarrow> Ball" where
  "Ball_reset b direction angle =
     b\<lparr>brect := set_center (WIDTH div 2, HEIGHT div 2) (brect b),
        vel := (vel b)\<lparr>vec_x := of_int direction * base_speed b,
                       vec_y := base_speed b * angle\<rparr>\<rparr>"

text \<open>
  The constructor: \<open>direction\<close> is what \<^verbatim>\<open>random.choice((-1, 1))\<close> returns.
\<close>

definition Ball_init :: "int \<Rightarrow> int \<Rightarrow> real \<Rightarrow> int \<Rightarrow> real \<Rightarrow> Ball" where
  "Ball_init x y speed direction angle =
     Ball_reset
       \<lparr>brect = \<lparr>rect_x = x, rect_y = y, rect_w = BALL_SIZE, rect_h = BALL_SIZE\<rparr>,
        base_speed = speed,
        vel = \<lparr>vec_x = 0, vec_y = 0\<rparr>\<rparr>
       direction angle"

definition Ball_update :: "Ball \<Rightarrow> real \<Rightarrow> Ball" where
  "Ball_update b dt =
     (let r1 = (brect b)\<lparr>rect_x := rect_x (brect b) + py_int (vec_x (vel b) * dt)\<rparr>;
          r2 = r1\<lparr>rect_y := rect_y r1 + py_int (vec_y (vel b) * dt)\<rparr>
      in if rect_top r2 \<le> 0 then
           b\<lparr>brect := set_top 0 r2, vel := (vel b)\<lparr>vec_y := - vec_y (vel b)\<rparr>\<rparr>
         else if rect_bottom r2 \<ge> HEIGHT then
           b\<lparr>brect := set_bottom HEIGHT r2, vel := (vel b)\<lparr>vec_y := - vec_y (vel b)\<rparr>\<rparr>
         else b\<lparr>brect := r2\<rparr>)"

definition Ball_collide_paddle :: "Ball \<Rightarrow> Paddle \<Rightarrow> Ball" where
  "Ball_collide_paddle b paddle =
     (if \<not> colliderect (brect b) (prect paddle) then b
      else
        let r1 = (if vec_x (vel b) < 0 then set_left (rect_right (prect paddle)) (brect b)
                  else set_right (rect_left (prect paddle)) (brect b));
            vx1 = - vec_x (vel b);
            offset = of_int (rect_centery r1 - rect_centery (prect paddle))
                       / (of_int PADDLE_HEIGHT / 2);
            spin = offset * 220;
            vy1 = max (min (vec_y (vel b) + spin) 520) (- 520);
            vx2 = vx1 * (104 / 100);
            vx3 = max (min vx2 720) (- 720)
        in b\<lparr>brect := r1, vel := (vel b)\<lparr>vec_x := vx3, vec_y := vy1\<rparr>\<rparr>)"

subsection \<open>\<^verbatim>\<open>class Game\<close> (lines 127--232)\<close>

text \<open>
  The fields of \<^verbatim>\<open>Game\<close> that the update reads or writes. The window, the clock and the
  fonts belong to the graphics library and are left out; what the update takes from
  them each frame is the record \<open>Frame\<close>: the two keys, the frame time \<^verbatim>\<open>dt\<close> in
  seconds, \<^verbatim>\<open>clock.get_time()\<close> in milliseconds, and the two random draws (the angle of
  a serve and the noise of the AI).
\<close>

record Game =
  player :: Paddle
  ai :: Paddle
  ball :: Ball
  score :: Score
  serve_dir :: int
  ai_reaction_ms :: int
  ai_timer :: int
  ai_target_y :: real
  ai_error_margin :: real

record Frame =
  key_w :: bool
  key_s :: bool
  frame_dt :: real
  clock_time :: int
  rand_angle :: real
  rand_noise :: real

text \<open>
  The constructor: \<open>d1\<close>, \<open>angle\<close> and \<open>d2\<close> are the three random draws it makes.
\<close>

definition Game_init :: "int \<Rightarrow> real \<Rightarrow> int \<Rightarrow> Game" where
  "Game_init d1 angle d2 =
     (let left_x = PADDLE_MARGIN;
          right_x = WIDTH - PADDLE_MARGIN - PADDLE_WIDTH;
          start_y = HEIGHT div 2 - PADDLE_HEIGHT div 2
      in \<lparr>player = Paddle_init left_x start_y 520,
          ai = Paddle_init right_x start_y 500,
          ball = Ball_init (WIDTH div 2 - BALL_SIZE div 2) (HEIGHT div 2 - BALL_SIZE div 2)
                   420 d1 angle,
          score = \<lparr>score_left = 0, score_right = 0\<rparr>,
          serve_dir = d2,
          ai_reaction_ms = 140,
          ai_timer = 0,
          ai_target_y = of_int (HEIGHT div 2),
          ai_error_margin = 32\<rparr>)"

text \<open>
  \<^verbatim>\<open>_predict_ball_y_at_x\<close> (lines 214--232). The two local variables \<^verbatim>\<open>time_to_x\<close> and
  \<^verbatim>\<open>simulated_y\<close> are named, and so is the mirroring of lines 229--232.
\<close>

definition reflect :: "real \<Rightarrow> error + real" where
  "reflect simulated_y =
     (let period = 2 * HEIGHT in
      case py_mod simulated_y (of_int period) of
        Inl e \<Rightarrow> Inl e
      | Inr m \<Rightarrow> Inr (if m \<le> of_int HEIGHT then m else of_int period - m))"

definition Game_predict_ball_y_at_x :: "Game \<Rightarrow> int \<Rightarrow> error + real" where
  "Game_predict_ball_y_at_x g x =
     (let pos_x = of_int (rect_centerx (brect (ball g)));
          pos_y = of_int (rect_centery (brect (ball g)));
          v = vel (ball g)
      in if vec_x v = 0 then Inr pos_y
         else
           case py_truediv (of_int x - pos_x) (vec_x v) of
             Inl e \<Rightarrow> Inl e
           | Inr time_to_x \<Rightarrow>
               if time_to_x \<le> 0 then Inr pos_y
               else reflect (pos_y + vec_y v * time_to_x))"

text \<open>\<^verbatim>\<open>_update_ai\<close> (lines 195--212).\<close>

definition Game_update_ai :: "Game \<Rightarrow> Frame \<Rightarrow> error + Game" where
  "Game_update_ai g f =
     (let ball_moving_to_ai = (vec_x (vel (ball g)) > 0);
          g1 = g\<lparr>ai_timer := ai_timer g + clock_time f\<rparr>;
          retarget =
            (if ai_timer g1 \<ge> ai_reaction_ms g1 then
               if ball_moving_to_ai then
                 case Game_predict_ball_y_at_x g1 (rect_centerx (prect (ai g1))) of
                   Inl e \<Rightarrow> Inl e
                 | Inr predicted_y \<Rightarrow>
                     Inr (g1\<lparr>ai_timer := 0,
                             ai_target_y :=
                               max 0 (min (of_int HEIGHT) (predicted_y + rand_noise f))\<rparr>)
               else Inr (g1\<lparr>ai_timer := 0, ai_target_y := of_int (HEIGHT div 2)\<rparr>)
             else Inr g1)
      in case retarget of
           Inl e \<Rightarrow> Inl e
         | Inr g2 \<Rightarrow>
             Inr (g2\<lparr>ai := Paddle_move_towards (ai g2) (ai_target_y g2) (frame_dt f)\<rparr>))"

text \<open>The scoring check of \<^verbatim>\<open>_update\<close> (lines 184--190).\<close>

definition scoring :: "Game \<Rightarrow> real \<Rightarrow> Game" where
  "scoring g angle =
     (if rect_right (brect (ball g)) < 0 then
        g\<lparr>score := (score g)\<lparr>score_right := score_right (score g) + 1\<rparr>,
           ball := Ball_reset (ball g) 1 angle\<rparr>
      else if rect_left (brect (ball g)) > WIDTH then
        g\<lparr>score := (score g)\<lparr>score_left := score_left (score g) + 1\<rparr>,
           ball := Ball_reset (ball g) (- 1) angle\<rparr>
      else g)"

text \<open>
  \<^verbatim>\<open>_update\<close> (lines 172--193). \<open>before_scoring\<close> is the state that reaches the scoring
  check: the player's paddle moved, the ball advanced and collided with both paddles.
\<close>

definition before_scoring :: "Game \<Rightarrow> Frame \<Rightarrow> Game" where
  "before_scoring g f =
     (let g1 = g\<lparr>player := Paddle_move_input (player g) (key_w f) (key_s f) (frame_dt f)\<rparr>;
          g2 = g1\<lparr>ball := Ball_update (ball g1) (frame_dt f)\<rparr>;
          g3 = g2\<lparr>ball := Ball_collide_paddle (ball g2) (player g2)\<rparr>;
          g4 = g3\<lparr>ball := Ball_collide_paddle (ball g3) (ai g3)\<rparr>
      in g4)"

definition Game_update :: "Game \<Rightarrow> Frame \<Rightarrow> error + Game" where
  "Game_update g f = Game_update_ai (scoring (before_scoring g f) (rand_angle f)) f"

section \<open>What the claims speak of\<close>

text \<open>
  A rectangle lies in the play area when its vertical extent is inside the screen.
\<close>

definition in_play_area :: "Rect \<Rightarrow> bool" where
  "in_play_area r = (0 \<le> rect_top r \<and> rect_bottom r \<le> HEIGHT)"

text \<open>
  The value of the local variable \<^verbatim>\<open>simulated_y\<close> (lines 222 and 227), for a ball
  whose horizontal velocity is not zero.
\<close>

definition simulated_y :: "Game \<Rightarrow> int \<Rightarrow> real" where
  "simulated_y g x =
     of_int (rect_centery (brect (ball g))) +
     vec_y (vel (ball g)) *
       ((of_int x - of_int (rect_centerx (brect (ball g)))) / vec_x (vel (ball g)))"

text \<open>
  The fold as the specification words it: take the simulated y modulo the period
  \<open>2 * HEIGHT\<close>; a result of at most \<open>HEIGHT\<close> is used directly, otherwise the period
  minus the result.
\<close>

definition triangle_fold :: "real \<Rightarrow> real" where
  "triangle_fold s =
     (let period = 2 * of_int HEIGHT;
          m = s - period * of_int \<lfloor>s / period\<rfloor>
      in if m \<le> of_int HEIGHT then m else period - m)"

subsection \<open>Concrete states\<close>

text \<open>The two paddles as \<^verbatim>\<open>Game.__init__\<close> builds them, and a paddle above the screen.\<close>

definition player0 :: Paddle where
  "player0 = Paddle_init 24 250 520"

definition ai0 :: Paddle where
  "ai0 = Paddle_init 764 250 500"

definition offscreen_paddle :: Paddle where
  "offscreen_paddle = Paddle_init 24 (- 10) 520"

text \<open>A ball of the game's size and base speed at a given corner with a given velocity.\<close>

definition ball_at :: "int \<Rightarrow> int \<Rightarrow> real \<Rightarrow> real \<Rightarrow> Ball" where
  "ball_at x y vx vy =
     \<lparr>brect = \<lparr>rect_x = x, rect_y = y, rect_w = BALL_SIZE, rect_h = BALL_SIZE\<rparr>,
      base_speed = 420, vel = \<lparr>vec_x = vx, vec_y = vy\<rparr>\<rparr>"

text \<open>A game as the constructor leaves it, with the ball replaced.\<close>

definition game_with :: "Ball \<Rightarrow> Game" where
  "game_with b = (Game_init 1 0 1)\<lparr>ball := b\<rparr>"

text \<open>A frame of 1/60 s with no key pressed.\<close>

definition idle_frame :: Frame where
  "idle_frame =
     \<lparr>key_w = False, key_s = False, frame_dt = 1 / 60, clock_time = 16,
      rand_angle = 1 / 10, rand_noise = 0\<rparr>"

section \<open>Lemmas\<close>

lemmas const_defs = WIDTH_def HEIGHT_def PADDLE_WIDTH_def PADDLE_HEIGHT_def BALL_SIZE_def
  PADDLE_MARGIN_def

lemmas rect_defs = rect_left_def rect_right_def rect_top_def rect_bottom_def
  rect_centerx_def rect_centery_def rect_center_def
  set_left_def set_right_def set_top_def set_bottom_def set_center_def

lemmas state_defs = player0_def ai0_def offscreen_paddle_def ball_at_def game_with_def
  idle_frame_def Paddle_init_def Game_init_def Ball_init_def

subsection \<open>Truncation\<close>

lemma py_int_small: "\<bar>v\<bar> < 1 \<Longrightarrow> py_int v = 0"
  by (auto simp: py_int_def floor_eq_iff ceiling_eq_iff)

lemma py_int_nonpos: "v \<le> 0 \<Longrightarrow> py_int v \<le> 0"
  by (auto simp: py_int_def ceiling_le_iff dest: antisym)

lemma py_int_nonneg: "0 \<le> v \<Longrightarrow> 0 \<le> py_int v"
  by (simp add: py_int_def)

subsection \<open>The clamp\<close>

lemma clamp_in_play_area:
  "rect_h (prect p) \<le> HEIGHT \<Longrightarrow> in_play_area (prect (Paddle_clamp p))"
  by (auto simp: in_play_area_def Paddle_clamp_def Let_def rect_defs)

lemma clamp_id: "in_play_area (prect p) \<Longrightarrow> Paddle_clamp p = p"
  by (simp add: in_play_area_def Paddle_clamp_def Let_def rect_defs)

subsection \<open>What the ball's methods keep\<close>

lemma collide_paddle_base_speed: "base_speed (Ball_collide_paddle b p) = base_speed b"
  by (simp add: Ball_collide_paddle_def Let_def)

lemma update_base_speed: "base_speed (Ball_update b dt) = base_speed b"
  by (simp add: Ball_update_def Let_def)

lemma collide_paddle_rect_w: "rect_w (brect (Ball_collide_paddle b p)) = rect_w (brect b)"
  by (simp add: Ball_collide_paddle_def Let_def rect_defs)

lemma update_rect_w: "rect_w (brect (Ball_update b dt)) = rect_w (brect b)"
  by (simp add: Ball_update_def Let_def rect_defs)

lemma reset_center:
  "rect_center (brect (Ball_reset b d angle)) = (WIDTH div 2, HEIGHT div 2)"
  by (simp add: Ball_reset_def rect_defs)

text \<open>
  A ball at or beyond a wall and not moving away from it leaves \<^verbatim>\<open>update\<close> moving away
  from that wall.
\<close>

lemma update_bounces_off_wall:
  "(rect_top (brect b) \<le> 0 \<and> vec_y (vel b) \<le> 0 \<and> 0 \<le> dt \<longrightarrow>
      0 \<le> vec_y (vel (Ball_update b dt))) \<and>
   (HEIGHT \<le> rect_bottom (brect b) \<and> 0 \<le> vec_y (vel b) \<and> 0 \<le> dt \<longrightarrow>
      vec_y (vel (Ball_update b dt)) \<le> 0)"
proof -
  have up: "0 \<le> vec_y (vel (Ball_update b dt))"
    if "rect_top (brect b) \<le> 0" "vec_y (vel b) \<le> 0" "0 \<le> dt"
  proof -
    have "vec_y (vel b) * dt \<le> 0" using that by (simp add: mult_nonpos_nonneg)
    then have "py_int (vec_y (vel b) * dt) \<le> 0" by (rule py_int_nonpos)
    then show ?thesis using that by (simp add: Ball_update_def Let_def rect_defs)
  qed
  have down: "vec_y (vel (Ball_update b dt)) \<le> 0"
    if "HEIGHT \<le> rect_bottom (brect b)" "0 \<le> vec_y (vel b)" "0 \<le> dt"
  proof -
    have "0 \<le> vec_y (vel b) * dt" using that by simp
    then have "0 \<le> py_int (vec_y (vel b) * dt)" by (rule py_int_nonneg)
    then show ?thesis using that by (simp add: Ball_update_def Let_def rect_defs)
  qed
  show ?thesis using up down by blast
qed

subsection \<open>The prediction never raises\<close>

lemma reflect_fold: "reflect s = Inr (triangle_fold s)"
  by (simp add: reflect_def triangle_fold_def py_mod_def HEIGHT_def Let_def)

lemma fold_just_above:
  assumes "0 < k" and "k < of_int HEIGHT"
  shows "triangle_fold (of_int HEIGHT + k) = of_int HEIGHT - k"
proof -
  have "\<lfloor>(600 + k) / 1200\<rfloor> = 0"
    using assms by (simp add: floor_eq_iff HEIGHT_def)
  then show ?thesis
    using assms by (simp add: triangle_fold_def HEIGHT_def Let_def)
qed

lemma predict_returns: "\<exists>y. Game_predict_ball_y_at_x g x = Inr y"
  by (simp add: Game_predict_ball_y_at_x_def py_truediv_def Let_def reflect_fold)

subsection \<open>The frame around the scoring check\<close>

lemma before_scoring_keeps:
  "score (before_scoring g f) = score g"
  "base_speed (ball (before_scoring g f)) = base_speed (ball g)"
  "rect_w (brect (ball (before_scoring g f))) = rect_w (brect (ball g))"
  by (simp_all add: before_scoring_def Let_def collide_paddle_base_speed update_base_speed
      collide_paddle_rect_w update_rect_w)

lemma update_ai_returns:
  "\<exists>g'. Game_update_ai g f = Inr g' \<and> ball g' = ball g \<and> score g' = score g"
proof -
  obtain y where "Game_predict_ball_y_at_x (g\<lparr>ai_timer := ai_timer g + clock_time f\<rparr>)
      (rect_centerx (prect (ai g))) = Inr y"
    using predict_returns by blast
  then show ?thesis by (simp add: Game_update_ai_def Let_def)
qed

lemma scoring_left_exit:
  assumes "rect_right (brect (ball g)) < 0"
  shows "score_right (score (scoring g angle)) = score_right (score g) + 1"
    and "score_left (score (scoring g angle)) = score_left (score g)"
    and "rect_center (brect (ball (scoring g angle))) = (WIDTH div 2, HEIGHT div 2)"
    and "vec_x (vel (ball (scoring g angle))) = base_speed (ball g)"
  using assms by (simp_all add: scoring_def reset_center) (simp add: Ball_reset_def)

lemma scoring_right_exit:
  assumes "WIDTH < rect_left (brect (ball g))" and "rect_w (brect (ball g)) = BALL_SIZE"
  shows "score_left (score (scoring g angle)) = score_left (score g) + 1"
    and "score_right (score (scoring g angle)) = score_right (score g)"
    and "rect_center (brect (ball (scoring g angle))) = (WIDTH div 2, HEIGHT div 2)"
    and "vec_x (vel (ball (scoring g angle))) = - base_speed (ball g)"
proof -
  have "\<not> rect_right (brect (ball g)) < 0"
    using assms by (simp add: rect_defs const_defs)
  then show "score_left (score (scoring g angle)) = score_left (score g) + 1"
    and "score_right (score (scoring g angle)) = score_right (score g)"
    and "rect_center (brect (ball (scoring g angle))) = (WIDTH div 2, HEIGHT div 2)"
    and "vec_x (vel (ball (scoring g angle))) = - base_speed (ball g)"
    using assms(1) by (simp_all add: scoring_def reset_center) (simp add: Ball_reset_def)
qed

subsection \<open>One idle frame of the concrete games\<close>

lemma ball_before_scoring:
  "ball (before_scoring g f) =
     Ball_collide_paddle
       (Ball_collide_paddle (Ball_update (ball g) (frame_dt f))
          (Paddle_move_input (player g) (key_w f) (key_s f) (frame_dt f)))
       (ai g)"
  by (simp add: before_scoring_def Let_def)

lemma game_with_fields:
  "player (game_with b) = player0" "ai (game_with b) = ai0" "ball (game_with b) = b"
  "score (game_with b) = \<lparr>score_left = 0, score_right = 0\<rparr>"
  by (simp_all add: game_with_def Game_init_def player0_def ai0_def Let_def const_defs)

lemma idle_frame_fields:
  "key_w idle_frame = False" "key_s idle_frame = False" "frame_dt idle_frame = 1 / 60"
  "rand_angle idle_frame = 1 / 10"
  by (simp_all add: idle_frame_def)

lemma player0_in_play_area: "in_play_area (prect player0)"
  by (simp add: in_play_area_def player0_def Paddle_init_def rect_defs const_defs)

lemma idle_player0: "Paddle_move_input player0 False False dt = player0"
  using clamp_id [OF player0_in_play_area] by (simp add: Paddle_move_input_def py_int_def)

lemma update_left_exit:
  "Ball_update (ball_at (- 15) 294 (- 420) 0) (1 / 60) = ball_at (- 22) 294 (- 420) 0"
  by (simp add: ball_at_def Ball_update_def Let_def rect_defs py_int_def const_defs)

lemma update_right_exit:
  "Ball_update (ball_at 805 294 420 0) (1 / 60) = ball_at 812 294 420 0"
  by (simp add: ball_at_def Ball_update_def Let_def rect_defs py_int_def const_defs)

lemma miss_left_exit:
  "\<not> colliderect (brect (ball_at (- 22) 294 (- 420) 0)) (prect player0)"
  "\<not> colliderect (brect (ball_at (- 22) 294 (- 420) 0)) (prect ai0)"
  by (simp_all add: colliderect_def ball_at_def player0_def ai0_def Paddle_init_def const_defs)

lemma miss_right_exit:
  "\<not> colliderect (brect (ball_at 812 294 420 0)) (prect player0)"
  "\<not> colliderect (brect (ball_at 812 294 420 0)) (prect ai0)"
  by (simp_all add: colliderect_def ball_at_def player0_def ai0_def Paddle_init_def const_defs)

section \<open>The claims\<close>

subsection \<open>C1: a paddle hit puts the ball flush against the paddle and bounds its velocity\<close>

text \<open>
  Claim C1. When the rectangles of ball and paddle intersect, \<^verbatim>\<open>collide_paddle\<close> leaves
  the ball's left edge on the paddle's right edge if the ball moved left (horizontal
  velocity below 0) and its right edge on the paddle's left edge if it moved right
  (horizontal velocity above 0); the sign of the horizontal velocity is flipped; and
  afterwards the horizontal velocity is at most 720 and the vertical velocity at most
  520 in absolute value.
\<close>

theorem collide_paddle_flush_and_bounded:
  assumes "colliderect (brect b) (prect p)"
  shows "(vec_x (vel b) < 0 \<longrightarrow>
            rect_left (brect (Ball_collide_paddle b p)) = rect_right (prect p) \<and>
            0 < vec_x (vel (Ball_collide_paddle b p))) \<and>
         (0 < vec_x (vel b) \<longrightarrow>
            rect_right (brect (Ball_collide_paddle b p)) = rect_left (prect p) \<and>
            vec_x (vel (Ball_collide_paddle b p)) < 0) \<and>
         \<bar>vec_x (vel (Ball_collide_paddle b p))\<bar> \<le> 720 \<and>
         \<bar>vec_y (vel (Ball_collide_paddle b p))\<bar> \<le> 520"
  using assms by (auto simp: Ball_collide_paddle_def Let_def rect_defs)

text \<open>
  A ball moving left into the player's paddle, and one moving right into the AI's.
\<close>

theorem collide_paddle_flush_and_bounded_witness:
  "colliderect (brect (ball_at 30 290 (- 420) 50)) (prect player0) \<and>
   vec_x (vel (ball_at 30 290 (- 420) 50)) < 0 \<and>
   rect_left (brect (Ball_collide_paddle (ball_at 30 290 (- 420) 50) player0)) =
     rect_right (prect player0) \<and>
   0 < vec_x (vel (Ball_collide_paddle (ball_at 30 290 (- 420) 50) player0)) \<and>
   \<bar>vec_x (vel (Ball_collide_paddle (ball_at 30 290 (- 420) 50) player0))\<bar> \<le> 720 \<and>
   \<bar>vec_y (vel (Ball_collide_paddle (ball_at 30 290 (- 420) 50) player0))\<bar> \<le> 520 \<and>
   colliderect (brect (ball_at 760 290 420 50)) (prect ai0) \<and>
   0 < vec_x (vel (ball_at 760 290 420 50)) \<and>
   rect_right (brect (Ball_collide_paddle (ball_at 760 290 420 50) ai0)) =
     rect_left (prect ai0) \<and>
   vec_x (vel (Ball_collide_paddle (ball_at 760 290 420 50) ai0)) < 0"
proof -
  have l: "colliderect (brect (ball_at 30 290 (- 420) 50)) (prect player0)"
    by (simp add: colliderect_def state_defs const_defs)
  have lv: "vec_x (vel (ball_at 30 290 (- 420) 50)) < 0"
    by (simp add: ball_at_def)
  have r: "colliderect (brect (ball_at 760 290 420 50)) (prect ai0)"
    by (simp add: colliderect_def state_defs const_defs)
  have rv: "0 < vec_x (vel (ball_at 760 290 420 50))"
    by (simp add: ball_at_def)
  show ?thesis
    using collide_paddle_flush_and_bounded [OF l] collide_paddle_flush_and_bounded [OF r]
      l lv r rv
    by blast
qed

subsection \<open>C2: the wall bounce\<close>

text \<open>
  Claim C2 says that a ball with top \<open>\<le> 0\<close> before \<^verbatim>\<open>update(dt)\<close>, \<open>dt > 0\<close>, has a
  non-negative vertical velocity after it (and a ball with bottom \<open>\<ge> HEIGHT\<close> a
  non-positive one). The code inverts the vertical velocity whenever the ball is at the
  wall after the move, whichever way it was going. A ball that has just bounced off the
  top wall (top = 0, moving down at 30 pixels per second) does not move in a frame of
  1/60 s, since the displacement 0.5 truncates to 0; it is still at the wall, and
  \<^verbatim>\<open>update\<close> turns it back toward the wall: the vertical velocity after the call is -30.
\<close>

theorem update_reinverts_at_top_wall:
  "rect_top (brect (ball_at 394 0 420 30)) \<le> 0 \<and>
   (0::real) < 1 / 60 \<and>
   vec_y (vel (Ball_update (ball_at 394 0 420 30) (1 / 60))) = - 30 \<and>
   rect_top (brect (Ball_update (ball_at 394 0 420 30) (1 / 60))) = 0"
  by (simp add: ball_at_def Ball_update_def Let_def rect_defs py_int_def const_defs)

subsection \<open>C3: scoring\<close>

text \<open>
  Claim C3. In one frame of \<^verbatim>\<open>_update\<close>, if the ball's right edge is below 0 at the
  scoring check, the right score grows by exactly 1, the left score is unchanged, the
  ball's center is the screen center and its horizontal velocity is the base speed
  (a serve to the right); if the ball's left edge is beyond the screen width, the same
  holds with left and right exchanged and the horizontal velocity is minus the base
  speed. The ball has the width the constructor gives it. The frame always returns.
\<close>

theorem update_scores_on_exit:
  assumes "rect_w (brect (ball g)) = BALL_SIZE"
  shows "\<exists>g'. Game_update g f = Inr g' \<and>
           (rect_right (brect (ball (before_scoring g f))) < 0 \<longrightarrow>
              score_right (score g') = score_right (score g) + 1 \<and>
              score_left (score g') = score_left (score g) \<and>
              rect_center (brect (ball g')) = (WIDTH div 2, HEIGHT div 2) \<and>
              vec_x (vel (ball g')) = base_speed (ball g)) \<and>
           (WIDTH < rect_left (brect (ball (before_scoring g f))) \<longrightarrow>
              score_left (score g') = score_left (score g) + 1 \<and>
              score_right (score g') = score_right (score g) \<and>
              rect_center (brect (ball g')) = (WIDTH div 2, HEIGHT div 2) \<and>
              vec_x (vel (ball g')) = - base_speed (ball g))"
proof -
  let ?s = "before_scoring g f"
  obtain g' where g': "Game_update_ai (scoring ?s (rand_angle f)) f = Inr g'"
      "ball g' = ball (scoring ?s (rand_angle f))" "score g' = score (scoring ?s (rand_angle f))"
    using update_ai_returns by blast
  have w: "rect_w (brect (ball ?s)) = BALL_SIZE"
    using assms by (simp add: before_scoring_keeps)
  have "Game_update g f = Inr g'"
    using g'(1) by (simp add: Game_update_def)
  moreover have "score_right (score g') = score_right (score g) + 1 \<and>
              score_left (score g') = score_left (score g) \<and>
              rect_center (brect (ball g')) = (WIDTH div 2, HEIGHT div 2) \<and>
              vec_x (vel (ball g')) = base_speed (ball g)"
    if "rect_right (brect (ball ?s)) < 0"
    using scoring_left_exit [OF that] g'(2,3) by (simp add: before_scoring_keeps)
  moreover have "score_left (score g') = score_left (score g) + 1 \<and>
              score_right (score g') = score_right (score g) \<and>
              rect_center (brect (ball g')) = (WIDTH div 2, HEIGHT div 2) \<and>
              vec_x (vel (ball g')) = - base_speed (ball g)"
    if "WIDTH < rect_left (brect (ball ?s))"
    using scoring_right_exit [OF that w] g'(2,3) by (simp add: before_scoring_keeps)
  ultimately show ?thesis by blast
qed

text \<open>
  A ball leaving on the left (its right edge at -10 after the move) and one leaving on
  the right (its left edge at 812), from a score of 0 : 0.
\<close>

theorem update_scores_on_exit_witness:
  "rect_w (brect (ball (game_with (ball_at (- 15) 294 (- 420) 0)))) = BALL_SIZE \<and>
   rect_right (brect (ball (before_scoring (game_with (ball_at (- 15) 294 (- 420) 0)) idle_frame))) < 0 \<and>
   (\<exists>g'. Game_update (game_with (ball_at (- 15) 294 (- 420) 0)) idle_frame = Inr g' \<and>
      score_right (score g') = 1 \<and> score_left (score g') = 0 \<and>
      rect_center (brect (ball g')) = (400, 300) \<and> vec_x (vel (ball g')) = 420) \<and>
   rect_w (brect (ball (game_with (ball_at 805 294 420 0)))) = BALL_SIZE \<and>
   WIDTH < rect_left (brect (ball (before_scoring (game_with (ball_at 805 294 420 0)) idle_frame))) \<and>
   (\<exists>g'. Game_update (game_with (ball_at 805 294 420 0)) idle_frame = Inr g' \<and>
      score_left (score g') = 1 \<and> score_right (score g') = 0 \<and>
      rect_center (brect (ball g')) = (400, 300) \<and> vec_x (vel (ball g')) = - 420)"
proof -
  let ?l = "game_with (ball_at (- 15) 294 (- 420) 0)"
  let ?r = "game_with (ball_at 805 294 420 0)"
  have lw: "rect_w (brect (ball ?l)) = BALL_SIZE"
    by (simp add: game_with_fields) (simp add: ball_at_def)
  have rw: "rect_w (brect (ball ?r)) = BALL_SIZE"
    by (simp add: game_with_fields) (simp add: ball_at_def)
  have lb: "ball (before_scoring ?l idle_frame) = ball_at (- 22) 294 (- 420) 0"
    by (simp add: ball_before_scoring game_with_fields idle_frame_fields idle_player0
        update_left_exit miss_left_exit Ball_collide_paddle_def)
  have rb: "ball (before_scoring ?r idle_frame) = ball_at 812 294 420 0"
    by (simp add: ball_before_scoring game_with_fields idle_frame_fields idle_player0
        update_right_exit miss_right_exit Ball_collide_paddle_def)
  have le: "rect_right (brect (ball (before_scoring ?l idle_frame))) < 0"
    by (simp add: lb) (simp add: ball_at_def rect_defs const_defs)
  have re: "WIDTH < rect_left (brect (ball (before_scoring ?r idle_frame)))"
    by (simp add: rb) (simp add: ball_at_def rect_defs const_defs)
  have s0: "score ?l = \<lparr>score_left = 0, score_right = 0\<rparr>" "base_speed (ball ?l) = 420"
      "score ?r = \<lparr>score_left = 0, score_right = 0\<rparr>" "base_speed (ball ?r) = 420"
    by (simp_all add: game_with_fields) (simp_all add: ball_at_def)
  have l: "\<exists>g'. Game_update ?l idle_frame = Inr g' \<and>
      score_right (score g') = 1 \<and> score_left (score g') = 0 \<and>
      rect_center (brect (ball g')) = (400, 300) \<and> vec_x (vel (ball g')) = 420"
    using update_scores_on_exit [OF lw, of idle_frame] le s0 by (auto simp: const_defs)
  have r: "\<exists>g'. Game_update ?r idle_frame = Inr g' \<and>
      score_left (score g') = 1 \<and> score_right (score g') = 0 \<and>
      rect_center (brect (ball g')) = (400, 300) \<and> vec_x (vel (ball g')) = - 420"
    using update_scores_on_exit [OF rw, of idle_frame] re s0 by (auto simp: const_defs)
  show ?thesis using lw le l rw re r by blast
qed

subsection \<open>C4: the clamp keeps the paddle in the play area\<close>

text \<open>
  Claim C4. For a paddle of the height the constructor gives it, at any position:
  after \<^verbatim>\<open>_clamp\<close> the paddle satisfies \<open>0 \<le> top\<close> and \<open>bottom \<le> HEIGHT\<close>. So it does
  after \<^verbatim>\<open>move_input\<close> (any keys, any \<open>dt\<close>), which always ends with the clamp, and
  after \<^verbatim>\<open>move_towards\<close> (any target, any \<open>dt\<close>) whenever the clamp step is reached,
  that is when the target is more than 1 away from the paddle's center. When it is not
  reached, \<^verbatim>\<open>move_towards\<close> changes nothing, so a paddle in the play area stays there.
\<close>

theorem paddle_stays_in_play_area:
  assumes "rect_h (prect p) = PADDLE_HEIGHT"
  shows "in_play_area (prect (Paddle_clamp p)) \<and>
         in_play_area (prect (Paddle_move_input p up down dt)) \<and>
         (1 < \<bar>target_y - of_int (rect_centery (prect p))\<bar> \<longrightarrow>
            in_play_area (prect (Paddle_move_towards p target_y dt))) \<and>
         (in_play_area (prect p) \<longrightarrow>
            in_play_area (prect (Paddle_move_towards p target_y dt)))"
proof -
  have h: "rect_h (prect p) \<le> HEIGHT"
    using assms by (simp add: PADDLE_HEIGHT_def HEIGHT_def)
  have moved: "in_play_area (prect (Paddle_clamp (p\<lparr>prect := (prect p)\<lparr>rect_y := v\<rparr>\<rparr>)))" for v
    using h by (intro clamp_in_play_area) simp
  show ?thesis
    using h moved
    by (simp add: clamp_in_play_area Paddle_move_input_def Paddle_move_towards_def Let_def)
qed

text \<open>
  A paddle above the screen (top at -10) is brought back by each operation; the
  player's paddle at its start position is within 1 of the target 300 and stays.
\<close>

theorem paddle_stays_in_play_area_witness:
  "rect_h (prect offscreen_paddle) = PADDLE_HEIGHT \<and>
   \<not> in_play_area (prect offscreen_paddle) \<and>
   in_play_area (prect (Paddle_clamp offscreen_paddle)) \<and>
   in_play_area (prect (Paddle_move_input offscreen_paddle True False (1 / 60))) \<and>
   1 < \<bar>(300::real) - of_int (rect_centery (prect offscreen_paddle))\<bar> \<and>
   in_play_area (prect (Paddle_move_towards offscreen_paddle 300 (1 / 60))) \<and>
   rect_h (prect player0) = PADDLE_HEIGHT \<and>
   in_play_area (prect player0) \<and>
   in_play_area (prect (Paddle_move_towards player0 300 (1 / 60)))"
proof -
  have h: "rect_h (prect offscreen_paddle) = PADDLE_HEIGHT"
    by (simp add: offscreen_paddle_def Paddle_init_def)
  have out: "\<not> in_play_area (prect offscreen_paddle)"
    by (simp add: in_play_area_def offscreen_paddle_def Paddle_init_def rect_defs)
  have far: "1 < \<bar>(300::real) - of_int (rect_centery (prect offscreen_paddle))\<bar>"
    by (simp add: offscreen_paddle_def Paddle_init_def rect_defs const_defs)
  have h0: "rect_h (prect player0) = PADDLE_HEIGHT"
    by (simp add: player0_def Paddle_init_def)
  show ?thesis
    using paddle_stays_in_play_area [OF h, of True False "1 / 60" 300]
      paddle_stays_in_play_area [OF h0, of True False "1 / 60" 300]
      h out far h0 player0_in_play_area
    by blast
qed

subsection \<open>C5: the prediction mirrors at the walls\<close>

text \<open>
  Claim C5. When \<^verbatim>\<open>_predict_ball_y_at_x\<close> reaches the simulation (the horizontal
  velocity is not zero and the time to reach \<open>x\<close> is positive), it returns the
  triangular-wave fold of the simulated y: the simulated y modulo \<open>2 * HEIGHT\<close> if that
  is at most \<open>HEIGHT\<close>, else \<open>2 * HEIGHT\<close> minus it. In particular a simulated y of
  \<open>HEIGHT + k\<close> with \<open>0 < k < HEIGHT\<close> gives \<open>HEIGHT - k\<close>.
\<close>

theorem predict_reflects:
  assumes "vec_x (vel (ball g)) \<noteq> 0"
    and "0 < (of_int x - of_int (rect_centerx (brect (ball g)))) / vec_x (vel (ball g))"
  shows "Game_predict_ball_y_at_x g x = Inr (triangle_fold (simulated_y g x)) \<and>
         (\<forall>k. 0 < k \<and> k < of_int HEIGHT \<and> simulated_y g x = of_int HEIGHT + k \<longrightarrow>
            Game_predict_ball_y_at_x g x = Inr (of_int HEIGHT - k))"
proof -
  have p: "Game_predict_ball_y_at_x g x = Inr (triangle_fold (simulated_y g x))"
    using assms
    by (simp add: Game_predict_ball_y_at_x_def py_truediv_def Let_def reflect_fold simulated_y_def)
  show ?thesis using p fold_just_above by auto
qed

text \<open>
  A ball centred at (400, 550) with velocity (420, 126), predicted at x = 770: the
  simulated y is 661 = 600 + 61, the prediction 539 = 600 - 61.
\<close>

theorem predict_reflects_witness:
  "vec_x (vel (ball (game_with (ball_at 394 544 420 126)))) \<noteq> 0 \<and>
   0 < (of_int 770 - of_int (rect_centerx (brect (ball (game_with (ball_at 394 544 420 126))))))
         / vec_x (vel (ball (game_with (ball_at 394 544 420 126)))) \<and>
   simulated_y (game_with (ball_at 394 544 420 126)) 770 = of_int HEIGHT + 61 \<and>
   Game_predict_ball_y_at_x (game_with (ball_at 394 544 420 126)) 770 = Inr 539"
proof -
  let ?g = "game_with (ball_at 394 544 420 126)"
  have h1: "vec_x (vel (ball ?g)) \<noteq> 0"
    by (simp add: game_with_fields) (simp add: ball_at_def)
  have h2: "0 < (of_int 770 - of_int (rect_centerx (brect (ball ?g)))) / vec_x (vel (ball ?g))"
    by (simp add: game_with_fields) (simp add: ball_at_def rect_defs const_defs)
  have s: "simulated_y ?g 770 = of_int HEIGHT + 61"
    by (simp add: simulated_y_def game_with_fields) (simp add: ball_at_def rect_defs const_defs)
  from predict_reflects [OF h1 h2]
  have "0 < (61::real) \<and> (61::real) < of_int HEIGHT \<and> simulated_y ?g 770 = of_int HEIGHT + 61 \<longrightarrow>
      Game_predict_ball_y_at_x ?g 770 = Inr (of_int HEIGHT - 61)"
    by blast
  with s have "Game_predict_ball_y_at_x ?g 770 = Inr 539"
    by (simp add: HEIGHT_def)
  with h1 h2 s show ?thesis by blast
qed

subsection \<open>C6: a ball with no horizontal velocity is predicted where it is\<close>

text \<open>
  Claim C6. If the ball's horizontal velocity is exactly 0 then, whatever its vertical
  velocity and the target \<open>x\<close>, \<^verbatim>\<open>_predict_ball_y_at_x\<close> returns the y of the ball's
  center. It returns a value: the division by the horizontal velocity, which would
  raise \<^verbatim>\<open>ZeroDivisionError\<close>, is not reached.
\<close>

theorem predict_zero_vx:
  "vec_x (vel (ball g)) = 0 \<Longrightarrow>
   Game_predict_ball_y_at_x g x = Inr (of_int (rect_centery (brect (ball g))))"
  by (simp add: Game_predict_ball_y_at_x_def Let_def)

theorem predict_zero_vx_witness:
  "vec_x (vel (ball (game_with (ball_at 394 294 0 50)))) = 0 \<and>
   Game_predict_ball_y_at_x (game_with (ball_at 394 294 0 50)) 770 = Inr 300"
proof -
  let ?g = "game_with (ball_at 394 294 0 50)"
  have h: "vec_x (vel (ball ?g)) = 0"
    by (simp add: game_with_fields) (simp add: ball_at_def)
  have c: "rect_centery (brect (ball ?g)) = 300"
    by (simp add: game_with_fields) (simp add: ball_at_def rect_defs const_defs)
  show ?thesis using predict_zero_vx [OF h, of 770] h c by simp
qed

subsection \<open>C7: the serve after a reset\<close>

text \<open>
  Claim C7. For a ball with a positive base speed and any angle factor in
  \<open>[-0.35, 0.35]\<close>, after \<^verbatim>\<open>reset(direction=1)\<close> the horizontal velocity is positive and
  its magnitude is the base speed, the ball's center is the screen center, and the
  vertical velocity is the base speed times the angle factor.
\<close>

theorem reset_serves_right:
  assumes "0 < base_speed b" and "- 0.35 \<le> angle" and "angle \<le> 0.35"
  shows "0 < vec_x (vel (Ball_reset b 1 angle)) \<and>
         \<bar>vec_x (vel (Ball_reset b 1 angle))\<bar> = base_speed b \<and>
         rect_center (brect (Ball_reset b 1 angle)) = (WIDTH div 2, HEIGHT div 2) \<and>
         vec_y (vel (Ball_reset b 1 angle)) = base_speed b * angle \<and>
         \<bar>vec_y (vel (Ball_reset b 1 angle))\<bar> \<le> 0.35 * base_speed b"
  using assms by (auto simp: Ball_reset_def rect_defs abs_mult abs_le_iff)

theorem reset_serves_right_witness:
  "0 < base_speed (ball_at 10 20 (- 500) 80) \<and>
   - 0.35 \<le> (0.2::real) \<and> (0.2::real) \<le> 0.35 \<and>
   vec_x (vel (Ball_reset (ball_at 10 20 (- 500) 80) 1 0.2)) = 420 \<and>
   rect_center (brect (Ball_reset (ball_at 10 20 (- 500) 80) 1 0.2)) = (400, 300) \<and>
   vec_y (vel (Ball_reset (ball_at 10 20 (- 500) 80) 1 0.2)) = 84"
proof -
  have h: "0 < base_speed (ball_at 10 20 (- 500) 80)"
    by (simp add: ball_at_def)
  have a: "- 0.35 \<le> (0.2::real)" "(0.2::real) \<le> 0.35"
    by simp_all
  have s: "base_speed (ball_at 10 20 (- 500) 80) = 420"
    by (simp add: ball_at_def)
  show ?thesis
    using reset_serves_right [OF h a] h a s by (auto simp: const_defs)
qed

subsection \<open>C8: no intersection, no change\<close>

text \<open>
  Claim C8. When the rectangles of ball and paddle do not intersect, \<^verbatim>\<open>collide_paddle\<close>
  returns the ball as it was: position and both velocity components are unchanged.
\<close>

theorem collide_paddle_noop:
  "\<not> colliderect (brect b) (prect p) \<Longrightarrow> Ball_collide_paddle b p = b"
  by (simp add: Ball_collide_paddle_def)

theorem collide_paddle_noop_witness:
  "\<not> colliderect (brect (ball_at 394 294 420 50)) (prect player0) \<and>
   Ball_collide_paddle (ball_at 394 294 420 50) player0 = ball_at 394 294 420 50"
proof -
  have h: "\<not> colliderect (brect (ball_at 394 294 420 50)) (prect player0)"
    by (simp add: colliderect_def ball_at_def player0_def Paddle_init_def const_defs)
  show ?thesis using h collide_paddle_noop [OF h] by simp
qed

subsection \<open>C9: displacements are truncated to whole pixels\<close>

text \<open>
  Claim C9 says that \<^verbatim>\<open>move_towards\<close> leaves the position unchanged for every paddle
  state with the target more than 1 away and \<open>speed * dt < 1\<close>, and that \<^verbatim>\<open>Ball.update\<close>
  leaves a coordinate unchanged whenever the displacement along it is below 1 in
  absolute value. The displacement does truncate to 0, but the clamp (for the paddle)
  and the wall snap (for the ball's y) still run: a paddle with its top at -10 is moved
  to 0 although its displacement is 0.
\<close>

theorem move_towards_clamps_counterexample:
  "1 < \<bar>(300::real) - of_int (rect_centery (prect offscreen_paddle))\<bar> \<and>
   pspeed offscreen_paddle * (1 / 1000) < 1 \<and>
   rect_y (prect offscreen_paddle) = - 10 \<and>
   rect_y (prect (Paddle_move_towards offscreen_paddle 300 (1 / 1000))) = 0 \<and>
   Paddle_move_towards offscreen_paddle 300 (1 / 1000) \<noteq> offscreen_paddle"
proof -
  have y: "rect_y (prect (Paddle_move_towards offscreen_paddle 300 (1 / 1000))) = 0"
    by (simp add: offscreen_paddle_def Paddle_init_def Paddle_move_towards_def Paddle_clamp_def
        Let_def rect_defs py_int_def const_defs)
  have y0: "rect_y (prect offscreen_paddle) = - 10"
    by (simp add: offscreen_paddle_def Paddle_init_def)
  have "1 < \<bar>(300::real) - of_int (rect_centery (prect offscreen_paddle))\<bar>"
    by (simp add: offscreen_paddle_def Paddle_init_def rect_defs const_defs)
  moreover have "pspeed offscreen_paddle * (1 / 1000) < 1"
    by (simp add: offscreen_paddle_def Paddle_init_def)
  moreover have "Paddle_move_towards offscreen_paddle 300 (1 / 1000) \<noteq> offscreen_paddle"
    using y y0 by auto
  ultimately show ?thesis using y y0 by blast
qed

text \<open>
  Claim C9, amended. When the displacement \<open>speed * dt\<close> is below 1 in absolute value,
  the paddle's movement truncates to 0 pixels: \<^verbatim>\<open>move_towards\<close> (target more than 1
  away) does what the clamp alone does, so it and \<^verbatim>\<open>move_input\<close> leave a paddle that
  lies in the play area unchanged. \<^verbatim>\<open>Ball.update\<close> leaves x unchanged whenever
  \<open>\<bar>vel.x * dt\<bar> < 1\<close>, and leaves y unchanged whenever \<open>\<bar>vel.y * dt\<bar> < 1\<close> and the
  ball lies in the play area.
\<close>

theorem truncated_displacement:
  "(1 < \<bar>target_y - of_int (rect_centery (prect p))\<bar> \<and> \<bar>pspeed p * dt\<bar> < 1 \<longrightarrow>
      Paddle_move_towards p target_y dt = Paddle_clamp p) \<and>
   (1 < \<bar>target_y - of_int (rect_centery (prect p))\<bar> \<and> \<bar>pspeed p * dt\<bar> < 1 \<and>
      in_play_area (prect p) \<longrightarrow> Paddle_move_towards p target_y dt = p) \<and>
   (\<bar>pspeed p * dt\<bar> < 1 \<and> in_play_area (prect p) \<longrightarrow> Paddle_move_input p up down dt = p) \<and>
   (\<bar>vec_x (vel b) * dt\<bar> < 1 \<longrightarrow> rect_x (brect (Ball_update b dt)) = rect_x (brect b)) \<and>
   (\<bar>vec_y (vel b) * dt\<bar> < 1 \<and> in_play_area (brect b) \<longrightarrow>
      rect_y (brect (Ball_update b dt)) = rect_y (brect b))"
proof -
  have a: "Paddle_move_towards p target_y dt = Paddle_clamp p"
    if "1 < \<bar>target_y - of_int (rect_centery (prect p))\<bar>" "\<bar>pspeed p * dt\<bar> < 1"
  proof -
    have "py_int ((if target_y > of_int (rect_centery (prect p)) then 1 else - 1) * pspeed p * dt) = 0"
      using that(2) by (intro py_int_small) (simp add: abs_mult)
    then show ?thesis using that(1) by (simp add: Paddle_move_towards_def Let_def)
  qed
  have c: "Paddle_move_input p up down dt = p"
    if "\<bar>pspeed p * dt\<bar> < 1" "in_play_area (prect p)"
  proof -
    have "py_int (if up \<and> \<not> down then - pspeed p * dt
                  else if down \<and> \<not> up then pspeed p * dt else 0) = 0"
      using that(1) by (intro py_int_small) (simp add: abs_mult)
    then show ?thesis using that(2) by (simp add: Paddle_move_input_def Let_def clamp_id)
  qed
  have d: "rect_x (brect (Ball_update b dt)) = rect_x (brect b)"
    if "\<bar>vec_x (vel b) * dt\<bar> < 1"
    using py_int_small [OF that] by (simp add: Ball_update_def Let_def rect_defs)
  have e: "rect_y (brect (Ball_update b dt)) = rect_y (brect b)"
    if "\<bar>vec_y (vel b) * dt\<bar> < 1" "in_play_area (brect b)"
    using py_int_small [OF that(1)] that(2)
    by (auto simp: Ball_update_def Let_def rect_defs in_play_area_def)
  show ?thesis using a c d e by (simp add: clamp_id)
qed

text \<open>
  The player's paddle at its start position and a ball in mid-screen, in a frame of
  1/1000 s: the displacements 0.52, 0.42 and 0.05 truncate to 0.
\<close>

theorem truncated_displacement_witness:
  "1 < \<bar>(400::real) - of_int (rect_centery (prect player0))\<bar> \<and>
   \<bar>pspeed player0 * (1 / 1000)\<bar> < 1 \<and>
   in_play_area (prect player0) \<and>
   Paddle_move_towards player0 400 (1 / 1000) = Paddle_clamp player0 \<and>
   Paddle_move_towards player0 400 (1 / 1000) = player0 \<and>
   Paddle_move_input player0 True False (1 / 1000) = player0 \<and>
   \<bar>vec_x (vel (ball_at 394 294 420 50)) * (1 / 1000)\<bar> < 1 \<and>
   \<bar>vec_y (vel (ball_at 394 294 420 50)) * (1 / 1000)\<bar> < 1 \<and>
   in_play_area (brect (ball_at 394 294 420 50)) \<and>
   rect_x (brect (Ball_update (ball_at 394 294 420 50) (1 / 1000))) =
     rect_x (brect (ball_at 394 294 420 50)) \<and>
   rect_y (brect (Ball_update (ball_at 394 294 420 50) (1 / 1000))) =
     rect_y (brect (ball_at 394 294 420 50))"
proof -
  have far: "1 < \<bar>(400::real) - of_int (rect_centery (prect player0))\<bar>"
    by (simp add: player0_def Paddle_init_def rect_defs const_defs)
  have slow: "\<bar>pspeed player0 * (1 / 1000)\<bar> < 1"
    by (simp add: player0_def Paddle_init_def)
  have bx: "\<bar>vec_x (vel (ball_at 394 294 420 50)) * (1 / 1000)\<bar> < 1"
    by (simp add: ball_at_def)
  have by': "\<bar>vec_y (vel (ball_at 394 294 420 50)) * (1 / 1000)\<bar> < 1"
    by (simp add: ball_at_def)
  have bin: "in_play_area (brect (ball_at 394 294 420 50))"
    by (simp add: in_play_area_def ball_at_def rect_defs const_defs)
  show ?thesis
    using truncated_displacement [of 400 player0 "1 / 1000" True False "ball_at 394 294 420 50"]
      far slow player0_in_play_area bx by' bin
    by blast
qed

subsection \<open>C10: a paddle hit with no horizontal velocity\<close>

text \<open>
  Claim C10. When the rectangles intersect and the ball's horizontal velocity is exactly
  0, \<^verbatim>\<open>collide_paddle\<close> takes the branch of a ball moving right: the ball's right edge is
  put on the paddle's left edge, and the horizontal velocity is still 0 after the
  negation, the speed-up by 1.04 and the clamp.
\<close>

theorem collide_paddle_zero_vx:
  assumes "colliderect (brect b) (prect p)" and "vec_x (vel b) = 0"
  shows "brect (Ball_collide_paddle b p) = set_right (rect_left (prect p)) (brect b) \<and>
         rect_right (brect (Ball_collide_paddle b p)) = rect_left (prect p) \<and>
         vec_x (vel (Ball_collide_paddle b p)) = 0"
  using assms by (simp add: Ball_collide_paddle_def Let_def rect_defs)

theorem collide_paddle_zero_vx_witness:
  "colliderect (brect (ball_at 30 290 0 50)) (prect player0) \<and>
   vec_x (vel (ball_at 30 290 0 50)) = 0 \<and>
   rect_right (brect (Ball_collide_paddle (ball_at 30 290 0 50) player0)) = 24 \<and>
   rect_x (brect (Ball_collide_paddle (ball_at 30 290 0 50) player0)) = 12 \<and>
   vec_x (vel (Ball_collide_paddle (ball_at 30 290 0 50) player0)) = 0"
proof -
  have h: "colliderect (brect (ball_at 30 290 0 50)) (prect player0)"
    by (simp add: colliderect_def ball_at_def player0_def Paddle_init_def const_defs)
  have v: "vec_x (vel (ball_at 30 290 0 50)) = 0"
    by (simp add: ball_at_def)
  have l: "rect_left (prect player0) = 24"
    by (simp add: player0_def Paddle_init_def rect_defs)
  have w: "rect_w (brect (ball_at 30 290 0 50)) = 12"
    by (simp add: ball_at_def const_defs)
  show ?thesis
    using collide_paddle_zero_vx [OF h v] h v l w by (simp add: rect_defs)
qed

end
